theory Spec2Isabelle
  imports Complex_Main
begin

section \<open>Python values at the boundary of the transaction processor\<close>

text \<open>
  The processor of \<^verbatim>\<open>src/lambda_function.py\<close> works on dictionaries decoded from JSON
  and on items read from DynamoDB. The model keeps the keys the code reads or writes as
  record fields; a key that may be absent is an \<open>option\<close>. Identifiers, currency and
  country are strings; a numeric key holds a \<open>pyval\<close>; the value under \<open>location\<close> is a
  dictionary or something else; a timestamp is what parsing makes of it. Keys the code
  never reads (account, payment method, metadata, ...) are left out. Floats are
  idealised as \<open>real\<close>: no rounding error, no infinity, no NaN.

  Every raise of the source is a value \<open>Inl e\<close> of the result type \<open>py_error + 'a\<close>.
  \<open>ClientError\<close> stands for whatever a call of an AWS client raises.
\<close>

datatype py_error =
  ValueError | KeyError | TypeError | AttributeError | ZeroDivisionError
  | OverflowError | ClientError

text \<open>
  A value found under a numeric key (\<open>amount\<close>, \<open>latitude\<close>, \<open>transaction_count\<close>, ...):
  \<^item> \<open>Num r\<close>: a Python \<open>int\<close> or \<open>float\<close>;
  \<^item> \<open>Dec r\<close>: a \<open>decimal.Decimal\<close>, which is what the DynamoDB resource hands back for
    every number and what \<open>parse_float=Decimal\<close> produces;
  \<^item> \<open>NumStr r\<close>: a string spelling the number \<open>r\<close>, which is what
    \<open>json.dumps(..., default=str)\<close> makes of a \<open>Decimal\<close>;
  \<^item> \<open>Text s\<close>: a string that spells no number;
  \<^item> \<open>PyNone\<close>: \<open>None\<close> (JSON \<open>null\<close>).
\<close>

datatype pyval = Num real | Dec real | NumStr real | Text string | PyNone

fun py_float :: "pyval \<Rightarrow> py_error + real" where
  "py_float (Num r) = Inr r"
| "py_float (Dec r) = Inr r"
| "py_float (NumStr r) = Inr r"
| "py_float (Text s) = Inl ValueError"
| "py_float PyNone = Inl TypeError"

text \<open>Truth value of \<open>d.get(key)\<close>: a missing key gives \<open>None\<close>, which is false.\<close>

fun py_truthy :: "pyval option \<Rightarrow> bool" where
  "py_truthy None = False"
| "py_truthy (Some (Num r)) = (r \<noteq> 0)"
| "py_truthy (Some (Dec r)) = (r \<noteq> 0)"
| "py_truthy (Some (NumStr r)) = True"
| "py_truthy (Some (Text s)) = (s \<noteq> [])"
| "py_truthy (Some PyNone) = False"

text \<open>\<open>x + 1\<close>: defined on numbers, \<open>TypeError\<close> on strings and \<open>None\<close>.\<close>

fun py_add_one :: "pyval \<Rightarrow> py_error + pyval" where
  "py_add_one (Num r) = Inr (Num (r + 1))"
| "py_add_one (Dec r) = Inr (Dec (r + 1))"
| "py_add_one (NumStr r) = Inl TypeError"
| "py_add_one (Text s) = Inl TypeError"
| "py_add_one PyNone = Inl TypeError"

text \<open>
  \<open>round(x, nd)\<close> on the idealised float: the nearest multiple of \<open>10 ^ -nd\<close>, a tie
  going to the even one.
\<close>

definition round_half_even :: "real \<Rightarrow> int" where
  "round_half_even x =
     (let f = \<lfloor>x\<rfloor>; d = x - of_int f
      in if d < 1 / 2 then f else if 1 / 2 < d then f + 1
         else if even f then f else f + 1)"

definition py_round :: "real \<Rightarrow> nat \<Rightarrow> real" where
  "py_round x nd = of_int (round_half_even (x * 10 ^ nd)) / 10 ^ nd"

subsection \<open>Timestamps\<close>

text \<open>
  The string under \<open>timestamp\<close> is represented by what
  \<open>datetime.fromisoformat(s.replace('Z', '+00:00'))\<close> makes of it: a \<open>ValueError\<close>
  (\<open>Malformed\<close>), a naive datetime, or an aware one. A datetime is its wall-clock reading
  in microseconds since 0001-01-01T00:00:00 and, when aware, its UTC offset in
  microseconds.
\<close>

datatype py_datetime = Naive int | Aware int int

datatype iso_timestamp = Malformed | Parses py_datetime

fun fromisoformat :: "iso_timestamp \<Rightarrow> py_error + py_datetime" where
  "fromisoformat Malformed = Inl ValueError"
| "fromisoformat (Parses d) = Inr d"

definition one_hour :: int where
  "one_hour = 3600000000"

fun wall_clock :: "py_datetime \<Rightarrow> int" where
  "wall_clock (Naive w) = w"
| "wall_clock (Aware w off) = w"

text \<open>\<open>d - timedelta(hours=1)\<close>: wall-clock arithmetic; below year 1 it overflows.\<close>

fun minus_one_hour :: "py_datetime \<Rightarrow> py_error + py_datetime" where
  "minus_one_hour (Naive w) =
     (if w - one_hour < 0 then Inl OverflowError else Inr (Naive (w - one_hour)))"
| "minus_one_hour (Aware w off) =
     (if w - one_hour < 0 then Inl OverflowError else Inr (Aware (w - one_hour) off))"

text \<open>\<open>a > b\<close>: instants are compared; a naive and an aware datetime do not compare.\<close>

fun dt_greater :: "py_datetime \<Rightarrow> py_datetime \<Rightarrow> py_error + bool" where
  "dt_greater (Naive a) (Naive b) = Inr (b < a)"
| "dt_greater (Aware a oa) (Aware b ob) = Inr (b - ob < a - oa)"
| "dt_greater (Naive a) (Aware b ob) = Inl TypeError"
| "dt_greater (Aware a oa) (Naive b) = Inl TypeError"

definition hour_of :: "py_datetime \<Rightarrow> int" where
  "hour_of d = (wall_clock d div one_hour) mod 24"

subsection \<open>Transactions, profiles, configuration\<close>

record loc =
  country :: "string option"
  latitude :: "pyval option"
  longitude :: "pyval option"

text \<open>The value under \<open>location\<close>: a dictionary, or something \<open>isinstance\<close> rejects.\<close>

datatype loc_value = LocDict loc | NotADict

definition empty_loc :: loc where
  "empty_loc = \<lparr>country = None, latitude = None, longitude = None\<rparr>"

text \<open>\<open>d.get('location', {})\<close>\<close>

fun get_location :: "loc_value option \<Rightarrow> loc_value" where
  "get_location None = LocDict empty_loc"
| "get_location (Some v) = v"

record transaction =
  transaction_id :: "string option"
  customer_id :: "string option"
  amount :: "pyval option"
  currency :: "string option"
  merchant_id :: "string option"
  merchant_category :: "string option"
  timestamp :: "iso_timestamp option"
  location :: "loc_value option"

record profile =
  profile_customer_id :: string
  account_created :: "string option"
  risk_profile :: "string option"
  average_monthly_spend :: "pyval option"
  transaction_count :: "pyval option"
  fraud_count :: "pyval option"
  home_location :: "loc_value option"
  last_transaction_timestamp :: "iso_timestamp option"
  last_updated :: "string option"

text \<open>The environment variables read at import time, with their defaults.\<close>

record config =
  FRAUD_THRESHOLD :: real
  VELOCITY_THRESHOLD :: int
  AMOUNT_THRESHOLD_MULTIPLIER :: real

definition default_config :: config where
  "default_config =
     \<lparr>FRAUD_THRESHOLD = 8 / 10, VELOCITY_THRESHOLD = 5, AMOUNT_THRESHOLD_MULTIPLIER = 3\<rparr>"

section \<open>FraudDetector\<close>

record risk_assessment =
  risk_score :: real
  risk_factors :: "(string \<times> real) list"
  is_fraud :: bool
  fraud_reasons :: "string list"

text \<open>The loop of \<open>_check_velocity_risk\<close>, with \<open>recent_count\<close> as accumulator.\<close>

fun count_recent :: "py_datetime \<Rightarrow> transaction list \<Rightarrow> nat \<Rightarrow> py_error + nat" where
  "count_recent one_hour_ago [] recent_count = Inr recent_count"
| "count_recent one_hour_ago (txn # rest) recent_count =
     (case timestamp txn of
        None \<Rightarrow> Inl KeyError
      | Some s \<Rightarrow>
          (case fromisoformat s of
             Inl e \<Rightarrow> Inl e
           | Inr txn_time \<Rightarrow>
               (case dt_greater txn_time one_hour_ago of
                  Inl e \<Rightarrow> Inl e
                | Inr newer \<Rightarrow>
                    count_recent one_hour_ago rest
                      (if newer then recent_count + 1 else recent_count))))"

definition check_velocity_risk ::
  "config \<Rightarrow> transaction \<Rightarrow> transaction list \<Rightarrow> py_error + real" where
  "check_velocity_risk cfg txn recent_transactions =
     (if recent_transactions = [] then Inr 0
      else case timestamp txn of
        None \<Rightarrow> Inl KeyError
      | Some s \<Rightarrow>
          (case fromisoformat s of
             Inl e \<Rightarrow> Inl e
           | Inr current_time \<Rightarrow>
               (case minus_one_hour current_time of
                  Inl e \<Rightarrow> Inl e
                | Inr one_hour_ago \<Rightarrow>
                    (case count_recent one_hour_ago recent_transactions 0 of
                       Inl e \<Rightarrow> Inl e
                     | Inr recent_count \<Rightarrow>
                         if VELOCITY_THRESHOLD cfg \<le> int recent_count then
                           (if VELOCITY_THRESHOLD cfg * 2 = 0 then Inl ZeroDivisionError
                            else Inr (min 1 (real recent_count
                                             / real_of_int (VELOCITY_THRESHOLD cfg * 2))))
                         else Inr 0))))"

text \<open>\<open>customer_profile.get('average_monthly_spend', 1000)\<close>\<close>

definition monthly_spend :: "profile \<Rightarrow> pyval" where
  "monthly_spend customer_profile =
     (case average_monthly_spend customer_profile of None \<Rightarrow> Num 1000 | Some v \<Rightarrow> v)"

definition check_amount_risk :: "config \<Rightarrow> transaction \<Rightarrow> profile \<Rightarrow> py_error + real" where
  "check_amount_risk cfg txn customer_profile =
     (case amount txn of
        None \<Rightarrow> Inl KeyError
      | Some a \<Rightarrow>
          (case py_float a of
             Inl e \<Rightarrow> Inl e
           | Inr amt \<Rightarrow>
               (case py_float (monthly_spend customer_profile) of
                  Inl e \<Rightarrow> Inl e
                | Inr monthly \<Rightarrow>
                    (let avg_spend = monthly / 30 in
                     if avg_spend * AMOUNT_THRESHOLD_MULTIPLIER cfg < amt then
                       (if avg_spend * AMOUNT_THRESHOLD_MULTIPLIER cfg * 2 = 0
                        then Inl ZeroDivisionError
                        else Inr (min 1 (amt / (avg_spend * AMOUNT_THRESHOLD_MULTIPLIER cfg * 2))))
                     else if 10000 < amt then Inr (8 / 10)
                     else Inr 0))))"

text \<open>
  \<open>_calculate_distance\<close>: the \<open>try\<close> turns a missing key and a value \<open>float\<close> rejects
  into the distance \<open>0.0\<close>.
\<close>

definition calculate_distance :: "loc \<Rightarrow> loc \<Rightarrow> real" where
  "calculate_distance loc1 loc2 =
     (case (latitude loc1, longitude loc1, latitude loc2, longitude loc2) of
        (Some a1, Some o1, Some a2, Some o2) \<Rightarrow>
          (case (py_float a1, py_float o1, py_float a2, py_float o2) of
             (Inr lat1, Inr lon1, Inr lat2, Inr lon2) \<Rightarrow>
               (let dlat = \<bar>lat1 - lat2\<bar>; dlon = \<bar>lon1 - lon2\<bar>
                in sqrt (dlat ^ 2 + dlon ^ 2) * 69)
           | _ \<Rightarrow> 0)
      | _ \<Rightarrow> 0)"

text \<open>\<open>recent_transactions[-5:]\<close>\<close>

definition last_five :: "'a list \<Rightarrow> 'a list" where
  "last_five xs = drop (length xs - 5) xs"

text \<open>The \<open>for\<close> loop of \<open>_check_location_risk\<close>; falling off its end returns \<open>0.0\<close>.\<close>

fun scan_recent_locations :: "loc \<Rightarrow> transaction list \<Rightarrow> py_error + real" where
  "scan_recent_locations txn_location [] = Inr 0"
| "scan_recent_locations txn_location (recent_txn # rest) =
     (case get_location (location recent_txn) of
        NotADict \<Rightarrow> Inl AttributeError
      | LocDict recent_location \<Rightarrow>
          (if py_truthy (latitude recent_location) \<and> py_truthy (longitude recent_location)
           then
             (let distance = calculate_distance txn_location recent_location
              in if 500 < distance then Inr (min (8 / 10) (distance / 1000))
                 else scan_recent_locations txn_location rest)
           else scan_recent_locations txn_location rest))"

text \<open>The second \<open>if\<close> of \<open>_check_location_risk\<close>: the distance check.\<close>

definition check_distance_risk :: "loc_value \<Rightarrow> transaction list \<Rightarrow> py_error + real" where
  "check_distance_risk txn_location recent_transactions =
     (if recent_transactions = [] then Inr 0
      else case txn_location of
        NotADict \<Rightarrow> Inl AttributeError
      | LocDict tloc \<Rightarrow>
          (if py_truthy (latitude tloc) \<and> py_truthy (longitude tloc)
           then scan_recent_locations tloc (last_five recent_transactions)
           else Inr 0))"

definition check_location_risk ::
  "transaction \<Rightarrow> profile \<Rightarrow> transaction list \<Rightarrow> py_error + real" where
  "check_location_risk txn customer_profile recent_transactions =
     (let txn_location = get_location (location txn);
          customer_location = get_location (home_location customer_profile)
      in case customer_location of
        NotADict \<Rightarrow> Inl AttributeError
      | LocDict cloc \<Rightarrow>
          (if country cloc = Some ''US'' then
             (case txn_location of
                NotADict \<Rightarrow> Inl AttributeError
              | LocDict tloc \<Rightarrow>
                  (if country tloc \<noteq> Some ''US'' then Inr (6 / 10)
                   else check_distance_risk txn_location recent_transactions))
           else check_distance_risk txn_location recent_transactions))"

definition check_time_risk :: "transaction \<Rightarrow> py_error + real" where
  "check_time_risk txn =
     (case timestamp txn of
        None \<Rightarrow> Inl KeyError
      | Some s \<Rightarrow>
          (case fromisoformat s of
             Inl e \<Rightarrow> Inl e
           | Inr txn_time \<Rightarrow>
               (let hour = hour_of txn_time
                in if 2 \<le> hour \<and> hour \<le> 6 then Inr (4 / 10)
                   else if hour < 6 \<or> 22 < hour then Inr (2 / 10)
                   else Inr 0)))"

text \<open>\<open>self.risk_weights\<close>, and the sum \<open>total_risk\<close> before it is clamped.\<close>

definition weighted_total :: "real \<Rightarrow> real \<Rightarrow> real \<Rightarrow> real \<Rightarrow> real" where
  "weighted_total velocity_risk amount_risk location_risk time_risk =
     0 + velocity_risk * (4 / 10) + amount_risk * (3 / 10)
       + location_risk * (2 / 10) + time_risk * (1 / 10)"

text \<open>\<open>min(max(total_risk, 0.0), 1.0)\<close>\<close>

definition clamp_risk :: "real \<Rightarrow> real" where
  "clamp_risk total_risk = min (max total_risk 0) 1"

definition assess ::
  "config \<Rightarrow> real \<Rightarrow> real \<Rightarrow> real \<Rightarrow> real \<Rightarrow> risk_assessment" where
  "assess cfg velocity_risk amount_risk location_risk time_risk =
     (let factors = [(''velocity'', velocity_risk), (''amount'', amount_risk),
                     (''location'', location_risk), (''time'', time_risk)];
          total_risk = clamp_risk
            (weighted_total velocity_risk amount_risk location_risk time_risk)
      in \<lparr>risk_score = py_round total_risk 3,
          risk_factors = factors,
          is_fraud = (FRAUD_THRESHOLD cfg < total_risk),
          fraud_reasons = map fst (filter (\<lambda>(factor, score). 5 / 10 < score) factors)\<rparr>)"

definition calculate_risk_score ::
  "config \<Rightarrow> transaction \<Rightarrow> profile \<Rightarrow> transaction list \<Rightarrow> py_error + risk_assessment" where
  "calculate_risk_score cfg txn customer_profile recent_transactions =
     (case check_velocity_risk cfg txn recent_transactions of
        Inl e \<Rightarrow> Inl e
      | Inr velocity_risk \<Rightarrow>
          (case check_amount_risk cfg txn customer_profile of
             Inl e \<Rightarrow> Inl e
           | Inr amount_risk \<Rightarrow>
               (case check_location_risk txn customer_profile recent_transactions of
                  Inl e \<Rightarrow> Inl e
                | Inr location_risk \<Rightarrow>
                    (case check_time_risk txn of
                       Inl e \<Rightarrow> Inl e
                     | Inr time_risk \<Rightarrow>
                         Inr (assess cfg velocity_risk amount_risk location_risk time_risk)))))"

section \<open>The stores and the environment of one call\<close>

text \<open>
  \<open>_convert_to_dynamodb_format\<close> is \<open>json.loads(json.dumps(item, default=str),
  parse_float=Decimal)\<close>: a float comes out as a \<open>Decimal\<close>, and a \<open>Decimal\<close> already
  in the item goes through \<open>default=str\<close> and comes out as a string. (An \<open>int\<close> stays an
  \<open>int\<close> here and is a \<open>Decimal\<close> once read back from the table; \<open>Num\<close> does not tell
  the two apart, so the model gives \<open>Dec\<close> at once.)
\<close>

fun to_dynamodb_value :: "pyval \<Rightarrow> pyval" where
  "to_dynamodb_value (Num r) = Dec r"
| "to_dynamodb_value (Dec r) = NumStr r"
| "to_dynamodb_value v = v"

text \<open>The DynamoDB resource returns every number attribute as a \<open>Decimal\<close>.\<close>

fun deserialize_value :: "pyval \<Rightarrow> pyval" where
  "deserialize_value (Num r) = Dec r"
| "deserialize_value v = v"

text \<open>
  \<open>_convert_from_dynamodb_format\<close> is \<open>json.loads(json.dumps(item, default=str))\<close>:
  \<open>json\<close> cannot serialise a \<open>Decimal\<close>, so \<open>default=str\<close> turns it into a string, and
  a string it stays.
\<close>

fun from_dynamodb_value :: "pyval \<Rightarrow> pyval" where
  "from_dynamodb_value (Dec r) = NumStr r"
| "from_dynamodb_value v = v"

fun map_loc_value :: "(pyval \<Rightarrow> pyval) \<Rightarrow> loc_value \<Rightarrow> loc_value" where
  "map_loc_value f (LocDict l) =
     LocDict (l\<lparr>latitude := map_option f (latitude l), longitude := map_option f (longitude l)\<rparr>)"
| "map_loc_value f NotADict = NotADict"

definition map_profile_values :: "(pyval \<Rightarrow> pyval) \<Rightarrow> profile \<Rightarrow> profile" where
  "map_profile_values f p =
     p\<lparr>average_monthly_spend := map_option f (average_monthly_spend p),
       transaction_count := map_option f (transaction_count p),
       fraud_count := map_option f (fraud_count p),
       home_location := map_option (map_loc_value f) (home_location p)\<rparr>"

definition map_transaction_values ::
  "(pyval \<Rightarrow> pyval) \<Rightarrow> 'a transaction_scheme \<Rightarrow> 'a transaction_scheme" where
  "map_transaction_values f t =
     t\<lparr>amount := map_option f (amount t),
       location := map_option (map_loc_value f) (location t)\<rparr>"

text \<open>
  The transaction after step 5 of \<open>process_transaction\<close>: the validated transaction and
  the fields of the fraud analysis. The scores are kept as \<open>real\<close>; how the stores
  represent them is not followed, since the code never reads them back.
\<close>

record enriched_transaction = transaction +
  txn_risk_score :: real
  txn_is_fraud :: bool
  txn_fraud_reasons :: "string list"
  txn_risk_factors :: "(string \<times> real) list"
  processed_timestamp :: string
  processor_version :: string

text \<open>
  The state the handler writes to: the two DynamoDB tables, the S3 bucket (key: the
  hour of the partition path and the transaction id), the metric data sent to
  CloudWatch, and the fraud warnings logged.
\<close>

record world =
  customers_table :: "string \<rightharpoonup> profile"
  transactions_table :: "enriched_transaction list"
  s3_objects :: "((int \<times> string) \<times> enriched_transaction) list"
  metric_data :: "(string \<times> real) list list"
  fraud_warnings :: "(string \<times> string option \<times> real) list"

text \<open>
  What the outside decides during one call of \<open>process_transaction\<close>: the identifier
  generated from the clock and \<open>uuid4\<close>, the reading of \<open>datetime.now()\<close>, which calls
  of the AWS clients raise, and the items the history query returns (\<open>None\<close>: the query
  raises). The history query is answered by the environment, not computed from
  \<open>transactions_table\<close>: its key condition and limit are evaluated by DynamoDB.
\<close>

record env =
  generated_id :: string
  now :: string
  get_item_fails :: bool
  create_profile_fails :: bool
  query_reply :: "transaction list option"
  put_transaction_fails :: bool
  put_object_fails :: bool
  put_profile_fails :: bool
  put_metric_data_fails :: bool
  alert_fails :: bool

section \<open>TransactionProcessor\<close>

text \<open>
  \<open>_validate_transaction\<close> writes the generated id into the dictionary it was given and
  returns that same dictionary. The model returns the candidate as the call leaves it,
  and the outcome.
\<close>

definition supported_currencies :: "string list" where
  "supported_currencies = [''USD'', ''EUR'', ''GBP'', ''CAD'']"

definition validate_transaction ::
  "env \<Rightarrow> transaction \<Rightarrow> transaction \<times> (py_error + transaction)" where
  "validate_transaction ev txn =
     (if customer_id txn = None \<or> amount txn = None \<or> currency txn = None
         \<or> merchant_id txn = None \<or> merchant_category txn = None
         \<or> timestamp txn = None \<or> location txn = None
      then (txn, Inl ValueError)
      else
        (let txn1 = (if transaction_id txn = None
                     then txn\<lparr>transaction_id := Some (generated_id ev)\<rparr> else txn)
         in case py_float (the (amount txn1)) of
           Inl e \<Rightarrow> (txn1, Inl e)
         | Inr amt \<Rightarrow>
             (if amt \<le> 0 then (txn1, Inl ValueError)
              else if the (currency txn1) \<notin> set supported_currencies
                then (txn1, Inl ValueError)
              else if get_location (location txn1) = NotADict then (txn1, Inl ValueError)
              else (txn1, Inr txn1))))"

definition default_profile :: "env \<Rightarrow> string \<Rightarrow> profile" where
  "default_profile ev cid =
     \<lparr>profile_customer_id = cid, account_created = Some (now ev),
      risk_profile = Some ''medium'', average_monthly_spend = Some (Num 1000),
      transaction_count = Some (Num 0), fraud_count = Some (Num 0),
      home_location = None, last_transaction_timestamp = None, last_updated = None\<rparr>"

definition fallback_profile :: "string \<Rightarrow> profile" where
  "fallback_profile cid =
     \<lparr>profile_customer_id = cid, account_created = None,
      risk_profile = Some ''high'', average_monthly_spend = Some (Num 500),
      transaction_count = Some (Num 0), fraud_count = Some (Num 0),
      home_location = None, last_transaction_timestamp = None, last_updated = None\<rparr>"

text \<open>\<open>customers_table.put_item(Item=...)\<close>: the key is \<open>customer_id\<close>.\<close>

definition put_profile :: "world \<Rightarrow> profile \<Rightarrow> world" where
  "put_profile w item =
     w\<lparr>customers_table := (customers_table w)(profile_customer_id item \<mapsto> item)\<rparr>"

text \<open>
  An item as the code sees it after a read: the resource has deserialised it, and
  \<open>_convert_from_dynamodb_format\<close> has been applied.
\<close>

definition read_back :: "profile \<Rightarrow> profile" where
  "read_back item =
     map_profile_values from_dynamodb_value (map_profile_values deserialize_value item)"

definition read_back_transaction :: "transaction \<Rightarrow> transaction" where
  "read_back_transaction item =
     map_transaction_values from_dynamodb_value (map_transaction_values deserialize_value item)"

definition get_customer_profile :: "env \<Rightarrow> world \<Rightarrow> string \<Rightarrow> world \<times> profile" where
  "get_customer_profile ev w cid =
     (if get_item_fails ev then (w, fallback_profile cid)
      else case customers_table w cid of
        None \<Rightarrow>
          (if create_profile_fails ev then (w, fallback_profile cid)
           else (put_profile w (map_profile_values to_dynamodb_value (default_profile ev cid)),
                 default_profile ev cid))
      | Some item \<Rightarrow> (w, read_back item))"

definition get_recent_transactions :: "env \<Rightarrow> transaction list" where
  "get_recent_transactions ev =
     (case query_reply ev of
        None \<Rightarrow> []
      | Some items \<Rightarrow> map read_back_transaction items)"

definition enrich :: "env \<Rightarrow> transaction \<Rightarrow> risk_assessment \<Rightarrow> enriched_transaction" where
  "enrich ev validated fraud_analysis =
     transaction.extend validated
       (enriched_transaction.fields (risk_score fraud_analysis) (is_fraud fraud_analysis)
          (fraud_reasons fraud_analysis) (risk_factors fraud_analysis)
          (now ev) ''1.0.0'')"

definition store_transaction ::
  "env \<Rightarrow> world \<Rightarrow> enriched_transaction \<Rightarrow> py_error + world" where
  "store_transaction ev w txn =
     (if put_transaction_fails ev then Inl ClientError
      else Inr (w\<lparr>transactions_table :=
                    map_transaction_values to_dynamodb_value txn # transactions_table w\<rparr>))"

definition archive_to_s3 :: "env \<Rightarrow> world \<Rightarrow> enriched_transaction \<Rightarrow> world" where
  "archive_to_s3 ev w txn =
     (case timestamp txn of
        None \<Rightarrow> w
      | Some s \<Rightarrow>
          (case fromisoformat s of
             Inl e \<Rightarrow> w
           | Inr ts \<Rightarrow>
               (case transaction_id txn of
                  None \<Rightarrow> w
                | Some tid \<Rightarrow>
                    (if put_object_fails ev then w
                     else w\<lparr>s3_objects :=
                              ((wall_clock ts div one_hour, tid), txn) # s3_objects w\<rparr>))))"

text \<open>\<open>current_count > 0\<close>\<close>

fun py_positive :: "pyval \<Rightarrow> py_error + bool" where
  "py_positive (Num r) = Inr (0 < r)"
| "py_positive (Dec r) = Inr (0 < r)"
| "py_positive v = Inl TypeError"

text \<open>
  \<open>((current_avg * current_count) + transaction_amount) / new_count\<close>, where
  \<open>new_count\<close> is \<open>current_count + 1\<close> and \<open>current_count > 0\<close>: a float only when
  average and count are both Python numbers. A \<open>Decimal\<close> does not add to a float, and
  a string, repeated or not, does not either.
\<close>

fun cumulative_average :: "pyval \<Rightarrow> pyval \<Rightarrow> real \<Rightarrow> py_error + real" where
  "cumulative_average (Num current_avg) (Num current_count) transaction_amount =
     Inr ((current_avg * current_count + transaction_amount) / (current_count + 1))"
| "cumulative_average current_avg current_count transaction_amount = Inl TypeError"

text \<open>
  \<open>_update_customer_profile\<close>: the whole body is in a \<open>try\<close> whose handler logs and
  returns, so every error leaves the table as it was.
\<close>

definition updated_profile ::
  "env \<Rightarrow> enriched_transaction \<Rightarrow> profile \<Rightarrow> py_error + profile" where
  "updated_profile ev txn current_profile =
     (let current_count = (case transaction_count current_profile of
                             None \<Rightarrow> Num 0 | Some v \<Rightarrow> v);
          current_avg = (case average_monthly_spend current_profile of
                           None \<Rightarrow> Num 0 | Some v \<Rightarrow> v)
      in case py_add_one current_count of
        Inl e \<Rightarrow> Inl e
      | Inr new_count \<Rightarrow>
          (case amount txn of
             None \<Rightarrow> Inl KeyError
           | Some a \<Rightarrow>
               (case py_float a of
                  Inl e \<Rightarrow> Inl e
                | Inr transaction_amount \<Rightarrow>
                    (case py_positive current_count of
                       Inl e \<Rightarrow> Inl e
                     | Inr positive \<Rightarrow>
                         (case (if positive
                                then cumulative_average current_avg current_count
                                       transaction_amount
                                else Inr transaction_amount) of
                            Inl e \<Rightarrow> Inl e
                          | Inr new_avg \<Rightarrow>
                              (case (if txn_is_fraud txn
                                     then py_add_one (case fraud_count current_profile of
                                                        None \<Rightarrow> Num 0 | Some v \<Rightarrow> v)
                                     else Inr (case fraud_count current_profile of
                                                 None \<Rightarrow> Num 0 | Some v \<Rightarrow> v)) of
                                 Inl e \<Rightarrow> Inl e
                               | Inr new_fraud_count \<Rightarrow>
                                   (case timestamp txn of
                                      None \<Rightarrow> Inl KeyError
                                    | Some s \<Rightarrow>
                                        Inr (current_profile
                                               \<lparr>transaction_count := Some new_count,
                                                average_monthly_spend :=
                                                  Some (Num (py_round new_avg 2)),
                                                fraud_count := Some new_fraud_count,
                                                last_transaction_timestamp := Some s,
                                                last_updated := Some (now ev)\<rparr>))))))))"

definition update_customer_profile ::
  "env \<Rightarrow> world \<Rightarrow> enriched_transaction \<Rightarrow> profile \<Rightarrow> world" where
  "update_customer_profile ev w txn current_profile =
     (case updated_profile ev txn current_profile of
        Inl e \<Rightarrow> w
      | Inr p \<Rightarrow>
          (if put_profile_fails ev then w
           else put_profile w (map_profile_values to_dynamodb_value p)))"

definition send_metrics :: "env \<Rightarrow> world \<Rightarrow> enriched_transaction \<Rightarrow> world" where
  "send_metrics ev w txn =
     (case amount txn of
        None \<Rightarrow> w
      | Some a \<Rightarrow>
          (case py_float a of
             Inl e \<Rightarrow> w
           | Inr amt \<Rightarrow>
               (let metrics = [(''ProcessedTransactions'', 1), (''TransactionAmount'', amt),
                               (''RiskScore'', txn_risk_score txn)]
                               @ (if txn_is_fraud txn then [(''FraudDetected'', 1)] else [])
                in if put_metric_data_fails ev then w
                   else w\<lparr>metric_data := metrics # metric_data w\<rparr>)))"

definition handle_fraud_alert :: "env \<Rightarrow> world \<Rightarrow> enriched_transaction \<Rightarrow> world" where
  "handle_fraud_alert ev w txn =
     (case transaction_id txn of
        None \<Rightarrow> w
      | Some tid \<Rightarrow>
          (if alert_fails ev then w
           else w\<lparr>fraud_warnings :=
                    (tid, customer_id txn, txn_risk_score txn) # fraud_warnings w\<rparr>))"

record summary =
  status :: string
  summary_transaction_id :: string
  summary_risk_score :: real
  summary_is_fraud :: bool

text \<open>Steps 7 to 10 of \<open>process_transaction\<close>: none of them raises.\<close>

definition after_store ::
  "env \<Rightarrow> world \<Rightarrow> enriched_transaction \<Rightarrow> profile \<Rightarrow> world" where
  "after_store ev w enriched customer_profile =
     (let w3 = archive_to_s3 ev w enriched;
          w4 = update_customer_profile ev w3 enriched customer_profile;
          w5 = send_metrics ev w4 enriched
      in if txn_is_fraud enriched then handle_fraud_alert ev w5 enriched else w5)"

definition process_transaction ::
  "config \<Rightarrow> env \<Rightarrow> world \<Rightarrow> transaction \<Rightarrow> world \<times> (py_error + summary)" where
  "process_transaction cfg ev w transaction_data =
     (case snd (validate_transaction ev transaction_data) of
        Inl e \<Rightarrow> (w, Inl e)
      | Inr validated \<Rightarrow>
          (case customer_id validated of
             None \<Rightarrow> (w, Inl KeyError)
           | Some cid \<Rightarrow>
               (let (w1, customer_profile) = get_customer_profile ev w cid;
                    recent_transactions = get_recent_transactions ev
                in case calculate_risk_score cfg validated customer_profile
                          recent_transactions of
                  Inl e \<Rightarrow> (w1, Inl e)
                | Inr fraud_analysis \<Rightarrow>
                    (let enriched = enrich ev validated fraud_analysis
                     in case store_transaction ev w1 enriched of
                       Inl e \<Rightarrow> (w1, Inl e)
                     | Inr w2 \<Rightarrow>
                         (case transaction_id enriched of
                            None \<Rightarrow> (after_store ev w2 enriched customer_profile, Inl KeyError)
                          | Some tid \<Rightarrow>
                              (after_store ev w2 enriched customer_profile,
                               Inr \<lparr>status = ''success'', summary_transaction_id = tid,
                                    summary_risk_score = txn_risk_score enriched,
                                    summary_is_fraud = txn_is_fraud enriched\<rparr>))))))"

section \<open>lambda_handler\<close>

text \<open>
  A Kinesis record either decodes to a transaction candidate or makes the decoding
  raise. Each record of the batch comes with the environment of its call.
\<close>

datatype kinesis_record = Undecodable | Payload transaction

record counters =
  processed :: nat
  errors :: nat
  fraud_detected :: nat

definition no_counts :: counters where
  "no_counts = \<lparr>processed = 0, errors = 0, fraud_detected = 0\<rparr>"

fun process_records ::
  "config \<Rightarrow> world \<Rightarrow> counters \<Rightarrow> (kinesis_record \<times> env) list \<Rightarrow> world \<times> counters" where
  "process_records cfg w c [] = (w, c)"
| "process_records cfg w c ((Undecodable, ev) # rest) =
     process_records cfg w (c\<lparr>errors := errors c + 1\<rparr>) rest"
| "process_records cfg w c ((Payload payload, ev) # rest) =
     (case process_transaction cfg ev w payload of
        (w', Inl e) \<Rightarrow> process_records cfg w' (c\<lparr>errors := errors c + 1\<rparr>) rest
      | (w', Inr result) \<Rightarrow>
          process_records cfg w'
            (c\<lparr>processed := processed c + 1,
               fraud_detected := (if summary_is_fraud result then fraud_detected c + 1
                                  else fraud_detected c)\<rparr>) rest)"

text \<open>The response of a batch that completes: status code 200 and the three counters.\<close>

definition lambda_handler ::
  "config \<Rightarrow> world \<Rightarrow> (kinesis_record \<times> env) list \<Rightarrow> world \<times> nat \<times> counters" where
  "lambda_handler cfg w records =
     (case process_records cfg w no_counts records of (w', c) \<Rightarrow> (w', 200, c))"

section \<open>Concrete inputs\<close>

text \<open>
  The inputs at which the theorems below are evaluated. \<open>noon\<close> and \<open>three_am\<close> are
  12:00 and 03:00 of the same day, in microseconds.
\<close>

definition noon :: int where
  "noon = 63763243200000000"

definition three_am :: int where
  "three_am = 63763210800000000"

definition new_york :: loc where
  "new_york =
     \<lparr>country = Some ''US'', latitude = Some (Num 40), longitude = Some (Num (- 74))\<rparr>"

definition montreal :: loc where
  "montreal =
     \<lparr>country = Some ''CA'', latitude = Some (Num 45), longitude = Some (Num (- 74))\<rparr>"

text \<open>Locations as they stand in a stored transaction: the coordinates are \<open>Decimal\<close>s.\<close>

definition stored_new_york :: loc where
  "stored_new_york =
     \<lparr>country = Some ''US'', latitude = Some (Dec 40), longitude = Some (Dec (- 74))\<rparr>"

definition stored_far_north :: loc where
  "stored_far_north =
     \<lparr>country = Some ''CA'', latitude = Some (Dec 50), longitude = Some (Dec (- 74))\<rparr>"

definition purchase :: transaction where
  "purchase =
     \<lparr>transaction_id = Some ''txn_1'', customer_id = Some ''cust_1'',
      amount = Some (Num 50), currency = Some ''USD'', merchant_id = Some ''m_1'',
      merchant_category = Some ''grocery'',
      timestamp = Some (Parses (Aware noon 0)), location = Some (LocDict new_york)\<rparr>"

definition tiny_purchase :: transaction where
  "tiny_purchase = purchase\<lparr>transaction_id := Some ''txn_0'', amount := Some (Num (4 / 1000))\<rparr>"

definition big_purchase :: transaction where
  "big_purchase =
     \<lparr>transaction_id = Some ''txn_2'', customer_id = Some ''cust_1'',
      amount = Some (Num 801), currency = Some ''USD'', merchant_id = Some ''m_2'',
      merchant_category = Some ''travel'',
      timestamp = Some (Parses (Aware three_am 0)), location = Some (LocDict montreal)\<rparr>"

text \<open>An item of the history query: a transaction stored \<open>m\<close> minutes before \<open>t\<close>.\<close>

definition minutes_before :: "int \<Rightarrow> int \<Rightarrow> loc \<Rightarrow> transaction" where
  "minutes_before t m l =
     \<lparr>transaction_id = Some ''txn_h'', customer_id = Some ''cust_1'',
      amount = Some (Dec 20), currency = Some ''USD'', merchant_id = Some ''m_1'',
      merchant_category = Some ''grocery'',
      timestamp = Some (Parses (Aware (t - m * 60000000) 0)), location = Some (LocDict l)\<rparr>"

definition five_prior :: "transaction list" where
  "five_prior = map (\<lambda>m. minutes_before noon m stored_new_york) [10, 20, 30, 40, 50]"

definition ten_prior :: "transaction list" where
  "ten_prior =
     map (\<lambda>m. minutes_before three_am m stored_new_york) [1, 2, 3, 4, 5, 6, 7, 8, 9, 10]"

text \<open>
  Most recent first: one transaction far away ten minutes ago, then five at the
  customer's usual place two hours ago and more.
\<close>

definition six_prior :: "transaction list" where
  "six_prior =
     minutes_before noon 10 stored_far_north
       # map (\<lambda>m. minutes_before noon m stored_new_york) [120, 130, 140, 150, 160]"

text \<open>A profile as a dictionary, with the given average spend and transaction count.\<close>

definition profile_with :: "pyval \<Rightarrow> pyval \<Rightarrow> profile" where
  "profile_with spend n =
     \<lparr>profile_customer_id = ''cust_1'', account_created = Some ''created'',
      risk_profile = Some ''medium'', average_monthly_spend = Some spend,
      transaction_count = Some n, fraud_count = Some (Dec 0),
      home_location = None, last_transaction_timestamp = None, last_updated = None\<rparr>"

definition us_profile :: profile where
  "us_profile = (profile_with (Dec 5000) (Dec 12))\<lparr>home_location := Some (LocDict stored_new_york)\<rparr>"

definition quiet_env :: env where
  "quiet_env =
     \<lparr>generated_id = ''txn_generated'', now = ''now'', get_item_fails = False,
      create_profile_fails = False, query_reply = Some [], put_transaction_fails = False,
      put_object_fails = False, put_profile_fails = False, put_metric_data_fails = False,
      alert_fails = False\<rparr>"

definition empty_world :: world where
  "empty_world =
     \<lparr>customers_table = Map.empty, transactions_table = [], s3_objects = [],
      metric_data = [], fraud_warnings = []\<rparr>"

definition world_with :: "profile \<Rightarrow> world" where
  "world_with p = empty_world\<lparr>customers_table := [profile_customer_id p \<mapsto> p]\<rparr>"

section \<open>Properties of the risk engine\<close>

lemmas example_defs =
  noon_def three_am_def new_york_def montreal_def stored_new_york_def stored_far_north_def
  purchase_def tiny_purchase_def big_purchase_def minutes_before_def five_prior_def
  ten_prior_def six_prior_def profile_with_def us_profile_def quiet_env_def empty_world_def
  world_with_def

lemmas scoring_defs =
  calculate_risk_score_def check_velocity_risk_def check_amount_risk_def monthly_spend_def
  check_location_risk_def check_distance_risk_def last_five_def calculate_distance_def
  check_time_risk_def hour_of_def one_hour_def assess_def weighted_total_def clamp_risk_def
  py_round_def round_half_even_def empty_loc_def default_config_def read_back_def
  read_back_transaction_def map_profile_values_def map_transaction_values_def Let_def

subsection \<open>Velocity\<close>






subsection \<open>Amount\<close>

lemma velocity_bounds:
  assumes "check_velocity_risk cfg txn rs = Inr v" and "0 < VELOCITY_THRESHOLD cfg"
  shows "0 \<le> v \<and> v \<le> 1"
  using assms
  by (auto simp: check_velocity_risk_def split: if_splits option.splits sum.splits)

lemma amount_bounds:
  assumes "check_amount_risk cfg txn p = Inr a" and "0 < AMOUNT_THRESHOLD_MULTIPLIER cfg"
    and "\<forall>m. py_float (monthly_spend p) = Inr m \<longrightarrow> 0 \<le> m"
  shows "0 \<le> a \<and> a \<le> 1"
proof -
  obtain x amt m where x: "amount txn = Some x" "py_float x = Inr amt"
    and m: "py_float (monthly_spend p) = Inr m"
    using assms(1) by (auto simp: check_amount_risk_def split: option.splits sum.splits)
  have m0: "0 \<le> m"
    using assms(3) m by blast
  let ?d = "m / 30 * AMOUNT_THRESHOLD_MULTIPLIER cfg"
  have d0: "0 \<le> ?d"
    using m0 assms(2) by simp
  have a: "a = (if ?d < amt then min 1 (amt / (?d * 2)) else if 10000 < amt then 8 / 10 else 0)"
    using assms(1) x m by (auto simp: check_amount_risk_def Let_def split: if_splits)
  show ?thesis
  proof (cases "?d < amt")
    case True
    then have "0 \<le> amt / (?d * 2)"
      using d0 by (intro divide_nonneg_nonneg) auto
    then show ?thesis
      using a True by (simp add: min_def)
  next
    case False
    then show ?thesis
      using a by auto
  qed
qed

subsection \<open>Location\<close>

lemma scan_bounds:
  "scan_recent_locations tloc rs = Inr l \<Longrightarrow> 0 \<le> l \<and> l \<le> 1"
  by (induction rs) (auto simp: Let_def min_def split: loc_value.splits if_splits)

lemma distance_risk_bounds:
  "check_distance_risk lv rs = Inr l \<Longrightarrow> 0 \<le> l \<and> l \<le> 1"
  using scan_bounds
  by (auto simp: check_distance_risk_def split: if_splits loc_value.splits)

lemma location_bounds:
  assumes "check_location_risk txn p rs = Inr l"
  shows "0 \<le> l \<and> l \<le> 1"
  using assms distance_risk_bounds
  by (auto simp: check_location_risk_def Let_def split: if_splits loc_value.splits)

text \<open>
  C8 fails on the code. The window is most recent first and the code scans
  \<open>recent_transactions[-5:]\<close>, the five oldest entries. With six entries, the most
  recent one 690 miles from the transaction and the five older ones at the
  transaction's place, the customer's home country not being \<open>US\<close>, the code returns 0;
  the scan of the five most recent entries returns \<open>min(0.8, 690/1000) = 0.69\<close>.
\<close>

theorem location_scan_skips_most_recent:
  "check_location_risk purchase (read_back (profile_with (Dec 1000) (Dec 1)))
       (map read_back_transaction six_prior) = Inr 0
   \<and> last_five (map read_back_transaction six_prior) = tl (map read_back_transaction six_prior)
   \<and> scan_recent_locations new_york (take 5 (map read_back_transaction six_prior))
       = Inr (69 / 100)"
  by (simp add: scoring_defs example_defs)

subsection \<open>Time and composite\<close>

lemma time_bounds:
  "check_time_risk txn = Inr t \<Longrightarrow> 0 \<le> t \<and> t \<le> 1"
  by (auto simp: check_time_risk_def Let_def split: if_splits option.splits sum.splits)

lemma calculate_risk_score_Inr:
  assumes "calculate_risk_score cfg txn p rs = Inr a"
  obtains v am l ti where "check_velocity_risk cfg txn rs = Inr v"
    and "check_amount_risk cfg txn p = Inr am" and "check_location_risk txn p rs = Inr l"
    and "check_time_risk txn = Inr ti" and "a = assess cfg v am l ti"
  using assms by (auto simp: calculate_risk_score_def split: sum.splits)

lemma weighted_total_bounds:
  assumes "0 \<le> v \<and> v \<le> 1" and "0 \<le> am \<and> am \<le> 1" and "0 \<le> l \<and> l \<le> 1"
    and "0 \<le> ti \<and> ti \<le> 1"
  shows "0 \<le> weighted_total v am l ti \<and> weighted_total v am l ti \<le> 1"
  using assms by (simp add: weighted_total_def)

lemma clamp_risk_bounds: "0 \<le> clamp_risk x \<and> clamp_risk x \<le> 1"
  by (simp add: clamp_risk_def)

lemma round_half_even_bounds:
  assumes "0 \<le> x" and "x \<le> of_int n"
  shows "0 \<le> round_half_even x \<and> round_half_even x \<le> n"
proof -
  have f0: "0 \<le> \<lfloor>x\<rfloor>"
    using assms(1) by simp
  have fn: "\<lfloor>x\<rfloor> \<le> n"
    using assms(2) by (simp add: floor_le_iff)
  show ?thesis
  proof (cases "\<lfloor>x\<rfloor> = n")
    case True
    then have "x - of_int \<lfloor>x\<rfloor> \<le> 0"
      using assms(2) by simp
    then show ?thesis
      using True f0 by (simp add: round_half_even_def Let_def)
  next
    case False
    then have "\<lfloor>x\<rfloor> + 1 \<le> n"
      using fn by linarith
    then show ?thesis
      using f0 fn by (auto simp: round_half_even_def Let_def)
  qed
qed

lemma py_round_unit:
  assumes "0 \<le> x" and "x \<le> 1"
  shows "0 \<le> py_round x 3 \<and> py_round x 3 \<le> 1"
proof -
  have "0 \<le> x * 1000" and "x * 1000 \<le> of_int 1000"
    using assms by auto
  then have "0 \<le> round_half_even (x * 1000) \<and> round_half_even (x * 1000) \<le> 1000"
    by (rule round_half_even_bounds)
  then show ?thesis
    by (simp add: py_round_def divide_le_eq)
qed
lemma big_purchase_score:
  "calculate_risk_score default_config big_purchase (read_back us_profile)
       (map read_back_transaction ten_prior)
     = Inr \<lparr>risk_score = 8 / 10,
            risk_factors = [(''velocity'', 1), (''amount'', 801 / 1000),
                            (''location'', 6 / 10), (''time'', 4 / 10)],
            is_fraud = True,
            fraud_reasons = [''velocity'', ''amount'', ''location'']\<rparr>"
  by (simp add: scoring_defs example_defs)



text \<open>
  C7, as the code has it. Whenever scoring returns an assessment, the clamped
  composite and the reported \<open>risk_score\<close> lie in \<open>[0, 1]\<close>. When moreover the profile's
  average monthly spend is not negative and the two thresholds of the configuration
  are positive (as the defaults are), each of the four signals lies in \<open>[0, 1]\<close>, and so
  does their weighted sum.
\<close>

theorem signals_and_composite_bounded:
  assumes "calculate_risk_score cfg txn customer_profile recent = Inr a"
  shows "\<exists>v am l ti.
           check_velocity_risk cfg txn recent = Inr v
         \<and> check_amount_risk cfg txn customer_profile = Inr am
         \<and> check_location_risk txn customer_profile recent = Inr l
         \<and> check_time_risk txn = Inr ti
         \<and> risk_factors a = [(''velocity'', v), (''amount'', am), (''location'', l), (''time'', ti)]
         \<and> 0 \<le> clamp_risk (weighted_total v am l ti)
         \<and> clamp_risk (weighted_total v am l ti) \<le> 1
         \<and> risk_score a = py_round (clamp_risk (weighted_total v am l ti)) 3
         \<and> 0 \<le> risk_score a \<and> risk_score a \<le> 1
         \<and> (0 < VELOCITY_THRESHOLD cfg \<and> 0 < AMOUNT_THRESHOLD_MULTIPLIER cfg
              \<and> (\<forall>m. py_float (monthly_spend customer_profile) = Inr m \<longrightarrow> 0 \<le> m)
            \<longrightarrow> 0 \<le> v \<and> v \<le> 1 \<and> 0 \<le> am \<and> am \<le> 1 \<and> 0 \<le> l \<and> l \<le> 1
              \<and> 0 \<le> ti \<and> ti \<le> 1
              \<and> 0 \<le> weighted_total v am l ti \<and> weighted_total v am l ti \<le> 1)"
proof -
  from assms obtain v am l ti where s: "check_velocity_risk cfg txn recent = Inr v"
    "check_amount_risk cfg txn customer_profile = Inr am"
    "check_location_risk txn customer_profile recent = Inr l"
    "check_time_risk txn = Inr ti" and a: "a = assess cfg v am l ti"
    by (rule calculate_risk_score_Inr)
  have bc: "0 \<le> clamp_risk (weighted_total v am l ti)
      \<and> clamp_risk (weighted_total v am l ti) \<le> 1"
    by (rule clamp_risk_bounds)
  have rf: "risk_factors a = [(''velocity'', v), (''amount'', am), (''location'', l), (''time'', ti)]"
    using a by (simp add: assess_def Let_def)
  have rs: "risk_score a = py_round (clamp_risk (weighted_total v am l ti)) 3"
    using a by (simp add: assess_def Let_def)
  have br: "0 \<le> risk_score a \<and> risk_score a \<le> 1"
    using bc rs py_round_unit by simp
  have signals: "0 < VELOCITY_THRESHOLD cfg \<and> 0 < AMOUNT_THRESHOLD_MULTIPLIER cfg
              \<and> (\<forall>m. py_float (monthly_spend customer_profile) = Inr m \<longrightarrow> 0 \<le> m)
            \<longrightarrow> 0 \<le> v \<and> v \<le> 1 \<and> 0 \<le> am \<and> am \<le> 1 \<and> 0 \<le> l \<and> l \<le> 1
              \<and> 0 \<le> ti \<and> ti \<le> 1
              \<and> 0 \<le> weighted_total v am l ti \<and> weighted_total v am l ti \<le> 1"
  proof
    assume h: "0 < VELOCITY_THRESHOLD cfg \<and> 0 < AMOUNT_THRESHOLD_MULTIPLIER cfg
              \<and> (\<forall>m. py_float (monthly_spend customer_profile) = Inr m \<longrightarrow> 0 \<le> m)"
    from h have h1: "0 < VELOCITY_THRESHOLD cfg"
      and h2: "0 < AMOUNT_THRESHOLD_MULTIPLIER cfg"
      and h3: "\<forall>m. py_float (monthly_spend customer_profile) = Inr m \<longrightarrow> 0 \<le> m"
      by blast+
    have bv: "0 \<le> v \<and> v \<le> 1"
      using s(1) h1 by (rule velocity_bounds)
    have ba: "0 \<le> am \<and> am \<le> 1"
      using s(2) h2 h3 by (rule amount_bounds)
    have bl: "0 \<le> l \<and> l \<le> 1"
      using s(3) by (rule location_bounds)
    have bt: "0 \<le> ti \<and> ti \<le> 1"
      using s(4) by (rule time_bounds)
    have bw: "0 \<le> weighted_total v am l ti \<and> weighted_total v am l ti \<le> 1"
      using bv ba bl bt by (rule weighted_total_bounds)
    show "0 \<le> v \<and> v \<le> 1 \<and> 0 \<le> am \<and> am \<le> 1 \<and> 0 \<le> l \<and> l \<le> 1
              \<and> 0 \<le> ti \<and> ti \<le> 1
              \<and> 0 \<le> weighted_total v am l ti \<and> weighted_total v am l ti \<le> 1"
      using bv ba bl bt bw by simp
  qed
  show ?thesis
    using s rf bc rs br signals by blast
qed

theorem signals_and_composite_bounded_witness:
  "0 < VELOCITY_THRESHOLD default_config \<and> 0 < AMOUNT_THRESHOLD_MULTIPLIER default_config
   \<and> py_float (monthly_spend (read_back us_profile)) = Inr 5000
   \<and> (\<exists>a. calculate_risk_score default_config big_purchase (read_back us_profile)
             (map read_back_transaction ten_prior) = Inr a
          \<and> (\<exists>v am l ti.
                risk_factors a
                  = [(''velocity'', v), (''amount'', am), (''location'', l), (''time'', ti)]
              \<and> 0 \<le> v \<and> v \<le> 1 \<and> 0 \<le> am \<and> am \<le> 1 \<and> 0 \<le> l \<and> l \<le> 1 \<and> 0 \<le> ti \<and> ti \<le> 1)
          \<and> 0 \<le> risk_score a \<and> risk_score a \<le> 1)"
proof -
  let ?a = "\<lparr>risk_score = 8 / 10,
            risk_factors = [(''velocity'', 1), (''amount'', 801 / 1000),
                            (''location'', 6 / 10), (''time'', 4 / 10)],
            is_fraud = True,
            fraud_reasons = [''velocity'', ''amount'', ''location'']\<rparr>"
  have h: "calculate_risk_score default_config big_purchase (read_back us_profile)
       (map read_back_transaction ten_prior) = Inr ?a"
    by (rule big_purchase_score)
  have t: "0 < VELOCITY_THRESHOLD default_config"
    and m: "0 < AMOUNT_THRESHOLD_MULTIPLIER default_config"
    by (simp_all add: default_config_def)
  have sp: "py_float (monthly_spend (read_back us_profile)) = Inr 5000"
    by (simp add: monthly_spend_def read_back_def map_profile_values_def us_profile_def
        profile_with_def)
  then have nn: "\<forall>m. py_float (monthly_spend (read_back us_profile)) = Inr m \<longrightarrow> 0 \<le> m"
    by simp
  from signals_and_composite_bounded [OF h] h t m sp nn show ?thesis
    by blast
qed

text \<open>
  C7, as the spec states it: the amount signal lies in \<open>[0, 1]\<close> for any profile. For a
  profile whose average monthly spend is \<open>-3000\<close> and a purchase of 50, the code computes
  the amount signal \<open>50 / (-100 * 3 * 2) = -1/12\<close>.
\<close>

theorem negative_spend_counterexample:
  "check_amount_risk default_config purchase (read_back (profile_with (Dec (- 3000)) (Dec 1)))
     = Inr (- (1 / 12))
   \<and> calculate_risk_score default_config purchase
         (read_back (profile_with (Dec (- 3000)) (Dec 1))) []
       = Inr \<lparr>risk_score = 0,
              risk_factors = [(''velocity'', 0), (''amount'', - (1 / 12)),
                              (''location'', 0), (''time'', 0)],
              is_fraud = False, fraud_reasons = []\<rparr>
   \<and> \<not> (0 \<le> - (1 / 12 :: real))"
  by (simp add: scoring_defs example_defs)

section \<open>Properties of validation\<close>

lemmas pipeline_defs =
  process_transaction_def validate_transaction_def supported_currencies_def
  get_customer_profile_def get_recent_transactions_def enrich_def store_transaction_def
  after_store_def archive_to_s3_def update_customer_profile_def updated_profile_def
  send_metrics_def handle_fraud_alert_def put_profile_def default_profile_def
  fallback_profile_def transaction.defs enriched_transaction.defs



lemma validate_Inr_fields:
  assumes "snd (validate_transaction ev txn) = Inr v"
  shows "transaction_id v \<noteq> None \<and> customer_id v \<noteq> None
    \<and> amount v \<noteq> None \<and> currency v \<noteq> None \<and> merchant_id v \<noteq> None
    \<and> merchant_category v \<noteq> None \<and> timestamp v \<noteq> None \<and> location v \<noteq> None"
  using assms
  by (auto simp: validate_transaction_def Let_def split: sum.splits if_splits)








section \<open>Properties of the pipeline\<close>

subsection \<open>What each step leaves alone\<close>







lemma get_customer_profile_frame:
  assumes "get_customer_profile ev w cid = (w1, p)"
  shows "transactions_table w1 = transactions_table w \<and> s3_objects w1 = s3_objects w
    \<and> metric_data w1 = metric_data w \<and> fraud_warnings w1 = fraud_warnings w
    \<and> (customers_table w1 = customers_table w
        \<or> customers_table w cid = None
          \<and> customers_table w1
              = (customers_table w)(cid \<mapsto>
                  map_profile_values to_dynamodb_value (default_profile ev cid)))"
  using assms
  by (auto simp: get_customer_profile_def put_profile_def map_profile_values_def
      default_profile_def split: if_splits option.splits)

subsection \<open>The shape of a successful call\<close>

lemma enrich_fields:
  "transaction_id (enrich ev v fa) = transaction_id v"
  "txn_risk_score (enrich ev v fa) = risk_score fa"
  "txn_is_fraud (enrich ev v fa) = is_fraud fa"
  by (simp_all add: enrich_def transaction.defs enriched_transaction.defs)

lemma process_after_store:
  assumes "snd (validate_transaction ev txn) = Inr v" and "customer_id v = Some cid"
    and "get_customer_profile ev w cid = (w1, p)"
    and "calculate_risk_score cfg v p (get_recent_transactions ev) = Inr fa"
    and "\<not> put_transaction_fails ev"
  shows "process_transaction cfg ev w txn =
           (after_store ev
              (w1\<lparr>transactions_table :=
                    map_transaction_values to_dynamodb_value (enrich ev v fa)
                      # transactions_table w1\<rparr>)
              (enrich ev v fa) p,
            Inr \<lparr>status = ''success'', summary_transaction_id = the (transaction_id v),
                 summary_risk_score = risk_score fa, summary_is_fraud = is_fraud fa\<rparr>)"
proof -
  have "transaction_id v \<noteq> None"
    using validate_Inr_fields [OF assms(1)] by simp
  then obtain tid where tid: "transaction_id v = Some tid"
    by auto
  show ?thesis
    using assms tid
    by (simp add: process_transaction_def store_transaction_def Let_def enrich_fields)
qed

subsection \<open>Failures after the transaction is stored\<close>

text \<open>
  C5. When a record passes validation and scoring and the transaction is stored,
  \<open>process_transaction\<close> returns the success summary made of the transaction id, the
  risk score and the fraud flag of the assessment, whichever of the archive, profile
  update, metrics and fraud alert steps fail: no failure of theirs is raised, and none
  changes the summary.
\<close>

theorem sink_failures_keep_summary:
  assumes "snd (validate_transaction ev txn) = Inr v" and "customer_id v = Some cid"
    and "get_customer_profile ev w cid = (w1, p)"
    and "calculate_risk_score cfg v p (get_recent_transactions ev) = Inr fa"
    and "\<not> put_transaction_fails ev"
  shows "snd (process_transaction cfg
                (ev\<lparr>put_object_fails := archive_fails, put_profile_fails := update_fails,
                    put_metric_data_fails := metrics_fail, alert_fails := warning_fails\<rparr>)
                w txn)
         = Inr \<lparr>status = ''success'', summary_transaction_id = the (transaction_id v),
                summary_risk_score = risk_score fa, summary_is_fraud = is_fraud fa\<rparr>"
proof -
  let ?ev = "ev\<lparr>put_object_fails := archive_fails, put_profile_fails := update_fails,
                 put_metric_data_fails := metrics_fail, alert_fails := warning_fails\<rparr>"
  have "validate_transaction ?ev txn = validate_transaction ev txn"
    by (simp add: validate_transaction_def)
  then have v: "snd (validate_transaction ?ev txn) = Inr v"
    using assms(1) by simp
  have dp: "default_profile ?ev cid = default_profile ev cid"
    by (simp add: default_profile_def)
  have "get_customer_profile ?ev w cid = get_customer_profile ev w cid"
    unfolding get_customer_profile_def dp by simp
  then have g: "get_customer_profile ?ev w cid = (w1, p)"
    using assms(3) by simp
  have "get_recent_transactions ?ev = get_recent_transactions ev"
    by (simp add: get_recent_transactions_def)
  then have s: "calculate_risk_score cfg v p (get_recent_transactions ?ev) = Inr fa"
    using assms(4) by simp
  have st: "\<not> put_transaction_fails ?ev"
    using assms(5) by simp
  show ?thesis
    using process_after_store [OF v assms(2) g s st] by simp
qed

theorem sink_failures_keep_summary_witness:
  "snd (validate_transaction (quiet_env\<lparr>query_reply := Some ten_prior\<rparr>) big_purchase)
     = Inr big_purchase
   \<and> customer_id big_purchase = Some ''cust_1''
   \<and> \<not> put_transaction_fails (quiet_env\<lparr>query_reply := Some ten_prior\<rparr>)
   \<and> snd (process_transaction default_config
            (quiet_env\<lparr>query_reply := Some ten_prior, put_object_fails := True,
                       put_profile_fails := True, put_metric_data_fails := True,
                       alert_fails := True\<rparr>)
            (world_with us_profile) big_purchase)
       = Inr \<lparr>status = ''success'', summary_transaction_id = ''txn_2'',
              summary_risk_score = 8 / 10, summary_is_fraud = True\<rparr>"
proof -
  let ?ev = "quiet_env\<lparr>query_reply := Some ten_prior\<rparr>"
  let ?a = "\<lparr>risk_score = 8 / 10,
            risk_factors = [(''velocity'', 1), (''amount'', 801 / 1000),
                            (''location'', 6 / 10), (''time'', 4 / 10)],
            is_fraud = True,
            fraud_reasons = [''velocity'', ''amount'', ''location'']\<rparr>"
  have v: "snd (validate_transaction ?ev big_purchase) = Inr big_purchase"
    by (simp add: validate_transaction_def supported_currencies_def Let_def example_defs)
  have c: "customer_id big_purchase = Some ''cust_1''"
    by (simp add: big_purchase_def)
  have g: "get_customer_profile ?ev (world_with us_profile) ''cust_1''
             = (world_with us_profile, read_back us_profile)"
    by (simp add: get_customer_profile_def world_with_def us_profile_def profile_with_def
        quiet_env_def empty_world_def)
  have r: "get_recent_transactions ?ev = map read_back_transaction ten_prior"
    by (simp add: get_recent_transactions_def)
  have s: "calculate_risk_score default_config big_purchase (read_back us_profile)
             (get_recent_transactions ?ev) = Inr ?a"
    unfolding r by (rule big_purchase_score)
  have st: "\<not> put_transaction_fails ?ev"
    by (simp add: quiet_env_def)
  have tid: "the (transaction_id big_purchase) = ''txn_2''"
    by (simp add: big_purchase_def)
  have e: "?ev\<lparr>put_object_fails := True, put_profile_fails := True,
               put_metric_data_fails := True, alert_fails := True\<rparr>
         = quiet_env\<lparr>query_reply := Some ten_prior, put_object_fails := True,
                       put_profile_fails := True, put_metric_data_fails := True,
                       alert_fails := True\<rparr>"
    by simp
  show ?thesis
    using sink_failures_keep_summary [OF v c g s st, of True True True True] v c st tid e
    by simp
qed

subsection \<open>Failure to store the transaction\<close>

lemma process_records_append:
  "process_records cfg w c (xs @ ys) =
     (case process_records cfg w c xs of (w', c') \<Rightarrow> process_records cfg w' c' ys)"
proof (induction xs arbitrary: w c)
  case Nil
  then show ?case
    by simp
next
  case (Cons x xs)
  obtain r ev where x: "x = (r, ev)"
    by (cases x)
  show ?case
  proof (cases r)
    case Undecodable
    then show ?thesis
      using x Cons by simp
  next
    case (Payload t)
    then show ?thesis
      using x Cons by (simp split: prod.splits sum.splits)
  qed
qed

lemma process_records_counts:
  "process_records cfg w c rs = (w', c') \<Longrightarrow>
     processed c' + errors c' = processed c + errors c + length rs"
proof (induction rs arbitrary: w c)
  case Nil
  then show ?case
    by simp
next
  case (Cons x xs)
  obtain r ev where x: "x = (r, ev)"
    by (cases x)
  show ?case
  proof (cases r)
    case Undecodable
    then show ?thesis
      using x Cons.prems Cons.IH [of w "c\<lparr>errors := errors c + 1\<rparr>"] by simp
  next
    case (Payload t)
    obtain w1 res where p: "process_transaction cfg ev w t = (w1, res)"
      by (cases "process_transaction cfg ev w t")
    show ?thesis
    proof (cases res)
      case (Inl e)
      then show ?thesis
        using x Payload p Cons.prems Cons.IH [of w1 "c\<lparr>errors := errors c + 1\<rparr>"] by simp
    next
      case (Inr s)
      then show ?thesis
        using x Payload p Cons.prems
          Cons.IH [of w1 "c\<lparr>processed := processed c + 1,
                fraud_detected := (if summary_is_fraud s then fraud_detected c + 1
                                   else fraud_detected c)\<rparr>"]
        by simp
    qed
  qed
qed

text \<open>
  C4. Let a record pass validation and scoring, and let storing its transaction fail.
  Then \<open>process_transaction\<close> returns the error of the store and no summary; nothing is
  archived, no metric is sent, no fraud warning is logged, no transaction is stored, and
  the profile update step is not run: the customers table is as the profile fetch left
  it, that is unchanged or with the default profile just created for a new customer.
  In a batch, the records before it having led to the world \<open>w\<close> and the counters \<open>c\<close>,
  the handler goes on with the records after it from there with \<open>errors\<close> one higher
  and \<open>processed\<close> and \<open>fraud_detected\<close> as they were, and every remaining record is
  counted once, as processed or as an error.
\<close>

theorem persist_failure_isolated:
  assumes "snd (validate_transaction ev txn) = Inr v" and "customer_id v = Some cid"
    and "get_customer_profile ev w cid = (w1, p)"
    and "calculate_risk_score cfg v p (get_recent_transactions ev) = Inr fa"
    and "put_transaction_fails ev"
    and "process_records cfg w0 no_counts before = (w, c)"
  shows "process_transaction cfg ev w txn = (w1, Inl ClientError)
    \<and> transactions_table w1 = transactions_table w \<and> s3_objects w1 = s3_objects w
    \<and> metric_data w1 = metric_data w \<and> fraud_warnings w1 = fraud_warnings w
    \<and> (customers_table w1 = customers_table w
        \<or> customers_table w cid = None
          \<and> customers_table w1
              = (customers_table w)(cid \<mapsto>
                  map_profile_values to_dynamodb_value (default_profile ev cid)))
    \<and> lambda_handler cfg w0 (before @ (Payload txn, ev) # after)
        = (case process_records cfg w1 (c\<lparr>errors := errors c + 1\<rparr>) after of
             (w', c') \<Rightarrow> (w', 200, c'))
    \<and> (\<exists>w' c'. lambda_handler cfg w0 (before @ (Payload txn, ev) # after) = (w', 200, c')
          \<and> processed c' + errors c' = processed c + (errors c + 1) + length after)"
proof -
  have p: "process_transaction cfg ev w txn = (w1, Inl ClientError)"
    using assms(1-5) by (simp add: process_transaction_def store_transaction_def)
  note frame = get_customer_profile_frame [OF assms(3)]
  have batch: "process_records cfg w0 no_counts (before @ (Payload txn, ev) # after)
        = process_records cfg w1 (c\<lparr>errors := errors c + 1\<rparr>) after"
    using assms(6) p by (simp add: process_records_append)
  then have handler: "lambda_handler cfg w0 (before @ (Payload txn, ev) # after)
        = (case process_records cfg w1 (c\<lparr>errors := errors c + 1\<rparr>) after of
             (w', c') \<Rightarrow> (w', 200, c'))"
    by (simp add: lambda_handler_def)
  obtain w' c' where rest: "process_records cfg w1 (c\<lparr>errors := errors c + 1\<rparr>) after = (w', c')"
    by (cases "process_records cfg w1 (c\<lparr>errors := errors c + 1\<rparr>) after")
  have "processed c' + errors c' = processed c + (errors c + 1) + length after"
    using process_records_counts [OF rest] by simp
  then have cnt: "\<exists>w' c'. lambda_handler cfg w0 (before @ (Payload txn, ev) # after) = (w', 200, c')
          \<and> processed c' + errors c' = processed c + (errors c + 1) + length after"
    using handler rest by simp
  show ?thesis
    using p frame handler cnt by blast
qed
lemmas evaluation_defs = pipeline_defs scoring_defs example_defs

theorem persist_failure_isolated_witness:
  "put_transaction_fails (quiet_env\<lparr>put_transaction_fails := True\<rparr>)
   \<and> process_transaction default_config (quiet_env\<lparr>put_transaction_fails := True\<rparr>)
         (world_with (profile_with (Dec 100) (Dec 57))) purchase
       = (world_with (profile_with (Dec 100) (Dec 57)), Inl ClientError)
   \<and> (\<exists>w'. lambda_handler default_config (world_with (profile_with (Dec 100) (Dec 57)))
               ([] @ (Payload purchase, quiet_env\<lparr>put_transaction_fails := True\<rparr>)
                  # [(Payload purchase, quiet_env)])
             = (w', 200, \<lparr>processed = 1, errors = 1, fraud_detected = 0\<rparr>))"
proof -
  let ?ev = "quiet_env\<lparr>put_transaction_fails := True\<rparr>"
  let ?w = "world_with (profile_with (Dec 100) (Dec 57))"
  let ?a = "\<lparr>risk_score = 3 / 10,
            risk_factors = [(''velocity'', 0), (''amount'', 1), (''location'', 0), (''time'', 0)],
            is_fraud = False, fraud_reasons = [''amount'']\<rparr>"
  have v: "snd (validate_transaction ?ev purchase) = Inr purchase"
    by (simp add: validate_transaction_def supported_currencies_def Let_def example_defs)
  have c: "customer_id purchase = Some ''cust_1''"
    by (simp add: purchase_def)
  have g: "get_customer_profile ?ev ?w ''cust_1'' = (?w, read_back (profile_with (Dec 100) (Dec 57)))"
    by (simp add: get_customer_profile_def example_defs)
  have s: "calculate_risk_score default_config purchase (read_back (profile_with (Dec 100) (Dec 57)))
             (get_recent_transactions ?ev) = Inr ?a"
    by (simp add: get_recent_transactions_def scoring_defs example_defs)
  have f: "put_transaction_fails ?ev"
    by simp
  have b: "process_records default_config ?w no_counts [] = (?w, no_counts)"
    by simp
  have rest: "\<exists>w'. process_records default_config ?w (no_counts\<lparr>errors := errors no_counts + 1\<rparr>)
                      [(Payload purchase, quiet_env)]
                = (w', \<lparr>processed = 1, errors = 1, fraud_detected = 0\<rparr>)"
    by (simp add: no_counts_def evaluation_defs)
  from persist_failure_isolated [OF v c g s f b, of "[(Payload purchase, quiet_env)]"]
  have p: "process_transaction default_config ?ev ?w purchase = (?w, Inl ClientError)"
    and h: "lambda_handler default_config ?w
              ([] @ (Payload purchase, ?ev) # [(Payload purchase, quiet_env)])
            = (case process_records default_config ?w
                      (no_counts\<lparr>errors := errors no_counts + 1\<rparr>)
                      [(Payload purchase, quiet_env)] of
                 (w', c') \<Rightarrow> (w', 200, c'))"
    by blast+
  from rest obtain w' where
    "process_records default_config ?w (no_counts\<lparr>errors := errors no_counts + 1\<rparr>)
       [(Payload purchase, quiet_env)]
     = (w', \<lparr>processed = 1, errors = 1, fraud_detected = 0\<rparr>)"
    by blast
  with h have "lambda_handler default_config ?w
              ([] @ (Payload purchase, ?ev) # [(Payload purchase, quiet_env)])
            = (w', 200, \<lparr>processed = 1, errors = 1, fraud_detected = 0\<rparr>)"
    by simp
  with f p show ?thesis
    by blast
qed

subsection \<open>The reported score and the fraud flag\<close>




subsection \<open>The profile update and duplicate delivery\<close>












subsection \<open>Scoring after a rounded average of zero\<close>

text \<open>
  C1 fails on the code. A first purchase of 0.004 by a new customer is processed with
  success and leaves the average spend \<open>round(0.004, 2) = 0.0\<close> in the customer's
  profile. The customer's next transaction is valid, and scoring it against that profile
  divides by the average and raises \<open>ZeroDivisionError\<close>, which \<open>process_transaction\<close>
  propagates.
\<close>

theorem zero_average_spend_raises:
  "snd (process_transaction default_config quiet_env empty_world tiny_purchase)
     = Inr \<lparr>status = ''success'', summary_transaction_id = ''txn_0'',
            summary_risk_score = 0, summary_is_fraud = False\<rparr>
   \<and> map_option average_monthly_spend
       (customers_table
          (fst (process_transaction default_config quiet_env empty_world tiny_purchase))
          ''cust_1'')
     = Some (Some (Dec 0))
   \<and> snd (validate_transaction quiet_env purchase) = Inr purchase
   \<and> calculate_risk_score default_config purchase (read_back (profile_with (Dec 0) (Dec 1))) []
     = Inl ZeroDivisionError
   \<and> snd (process_transaction default_config quiet_env
            (fst (process_transaction default_config quiet_env empty_world tiny_purchase))
            purchase)
     = Inl ZeroDivisionError"
  by (simp add: evaluation_defs)

end
